theory Spec2Isabelle
  imports Complex_Main "HOL-Library.Sublist"
begin

section \<open>Python values, exceptions and insertion-ordered dictionaries\<close>

text \<open>
  The callback receives whatever the form fields hold, so the three arguments of
  \<open>preprocess\<close> are dynamically typed Python values: the number field gives
  \<open>None\<close>, an integer or a float; the dropdowns give strings.
  Strings are byte strings in UTF-8, so that concatenation and the prefix order agree with
  those of Python's code-point strings.
\<close>

datatype pyval = PyNone | PyBool bool | PyInt int | PyFloat real | PyStr string

text \<open>
  What a raise carries, as far as \<open>except Exception as e\<close> and the \<open>{e}\<close> of the
  f-string can tell. \<open>Exception r\<close> is an instance of the class \<open>Exception\<close>, and \<open>r\<close>
  is what \<open>str(e)\<close> does: it returns the message (\<open>Inr\<close>), or its \<open>__str__\<close> raises in
  turn (\<open>Inl\<close>). \<open>BaseException d\<close> is an instance of \<open>BaseException\<close> that is not an
  \<open>Exception\<close> (\<open>KeyboardInterrupt\<close>, \<open>SystemExit\<close>, \<open>GeneratorExit\<close>), \<open>d\<close> naming it.
\<close>

datatype py_raise = Exception "py_raise + string" | BaseException string

text \<open>
  A float as Python prints it: a finite value, the negative zero, the two infinities,
  or not-a-number. \<open>Finite 0\<close> is the positive zero.
\<close>

datatype pyfloat = Finite real | NegZero | PosInf | NegInf | NaN

text \<open>
  A Python \<open>dict\<close> keeps its keys in insertion order, and assigning to a key that is
  present keeps the key's position: an association list with pairwise distinct keys.
\<close>

type_synonym pydict = "(string \<times> pyval) list"

text \<open>\<open>d[k] = v\<close>\<close>

fun dict_setitem :: "pydict \<Rightarrow> string \<Rightarrow> pyval \<Rightarrow> pydict" where
  "dict_setitem [] k v = [(k, v)]"
| "dict_setitem ((k', v') # d) k v =
     (if k' = k then (k', v) # d else (k', v') # dict_setitem d k v)"

text \<open>\<open>k in d\<close>\<close>

definition dict_contains :: "string \<Rightarrow> pydict \<Rightarrow> bool" where
  "dict_contains k d \<longleftrightarrow> k \<in> set (map fst d)"

section \<open>The single-row table and the loaded pipeline\<close>

text \<open>
  A pandas table, as far as this program builds and reads one: the column labels in
  order, and the rows, each holding one cell per column.
\<close>

record dataframe =
  columns :: "string list"
  rows :: "pyval list list"

text \<open>
  \<open>pd.DataFrame([base])\<close>: one row; the columns are the keys of \<open>base\<close> in the
  dict's own order, the cells its values.
\<close>

definition DataFrame_of_row :: "pydict \<Rightarrow> dataframe" where
  "DataFrame_of_row base = \<lparr>columns = map fst base, rows = [map snd base]\<rparr>"

text \<open>\<open>df.at[i, col]\<close>, with \<open>None\<close> where pandas raises \<open>KeyError\<close>.\<close>

definition df_at :: "dataframe \<Rightarrow> nat \<Rightarrow> string \<Rightarrow> pyval option" where
  "df_at df i col =
     (if i < length (rows df) then map_of (zip (columns df) (rows df ! i)) col else None)"

text \<open>
  The global \<open>model\<close> is loaded once from a serialized artifact that is not part of
  the repository. It is a parameter: \<open>'s\<close> is the state of the loaded object,
  \<open>feature_names_in\<close> is what evaluating
  \<open>list(model.named_steps["pre"].feature_names_in_)\<close> gives in that state (the list of
  names, or the exception a missing step or attribute raises), and \<open>predict_proba\<close> is
  the call \<open>model.predict_proba(df)\<close>: the exception it raises or the two-dimensional
  array it returns (a list of rows), and the state it leaves the object in.
\<close>

record 's pipeline =
  feature_names_in :: "'s \<Rightarrow> py_raise + string list"
  predict_proba :: "'s \<Rightarrow> dataframe \<Rightarrow> (py_raise + pyfloat list list) \<times> 's"

section \<open>preprocess\<close>

definition preprocess ::
  "'s pipeline \<Rightarrow> 's \<Rightarrow> pyval \<Rightarrow> pyval \<Rightarrow> pyval \<Rightarrow> py_raise + dataframe" where
  "preprocess model s age gender rural =
     (case feature_names_in model s of
        Inl e \<Rightarrow> Inl e
      | Inr expected_cols \<Rightarrow>
          (let base = foldl (\<lambda>d col. dict_setitem d col (PyInt 0)) [] expected_cols;
               base = (if dict_contains ''GENDER'' base
                       then dict_setitem base ''GENDER'' gender else base);
               base = (if dict_contains ''RURAL'' base
                       then dict_setitem base ''RURAL'' rural else base);
               base = (if dict_contains ''TYPE_OF_ADMISSION-EMERGENCY/OPD'' base
                       then dict_setitem base ''TYPE_OF_ADMISSION-EMERGENCY/OPD''
                              (PyStr ''EMERGENCY'')
                       else base);
               base = (if dict_contains ''AGE'' base
                       then dict_setitem base ''AGE'' age else base)
           in Inr (DataFrame_of_row base)))"

section \<open>make\_prediction\<close>

text \<open>
  \<open>a[0, 1]\<close> on a two-dimensional numpy array: the bounds of axis 0 are checked first,
  then those of axis 1; an index out of bounds raises \<open>IndexError\<close>, an
  \<open>Exception\<close> with a message.
\<close>

definition getitem_0_1 :: "pyfloat list list \<Rightarrow> py_raise + pyfloat" where
  "getitem_0_1 a =
     (case a of
        [] \<Rightarrow> Inl (Exception (Inr ''index 0 is out of bounds for axis 0 with size 0''))
      | r # _ \<Rightarrow>
          (case r of
             [] \<Rightarrow> Inl (Exception (Inr ''index 1 is out of bounds for axis 1 with size 0''))
           | [_] \<Rightarrow> Inl (Exception (Inr ''index 1 is out of bounds for axis 1 with size 1''))
           | _ # p # _ \<Rightarrow> Inr p))"

text \<open>Line 101, \<open>proba = model.predict_proba(df)[0, 1]\<close>.\<close>

definition proba :: "'s pipeline \<Rightarrow> 's \<Rightarrow> dataframe \<Rightarrow> (py_raise + pyfloat) \<times> 's" where
  "proba model s df =
     (case predict_proba model s df of
        (Inl e, s') \<Rightarrow> (Inl e, s')
      | (Inr a, s') \<Rightarrow> (getitem_0_1 a, s'))"

text \<open>
  \<open>{proba:.2%}\<close>. Python multiplies the float by 100, rounds the product to two
  decimals and prints sign, integer digits, a point, two digits and the percent sign; an
  infinity or a not-a-number is printed by name. The digits are the decimal digits of a
  natural number of hundredths; which number the floating-point product and rounding
  arrive at for a magnitude is the parameter \<open>hundredths\<close>.
\<close>

definition digit :: "nat \<Rightarrow> char" where
  "digit d = ''0123456789'' ! d"

fun decimal :: "nat \<Rightarrow> string" where
  "decimal n = (if n < 10 then [digit n] else decimal (n div 10) @ [digit (n mod 10)])"

declare decimal.simps [simp del]

definition format_2pct :: "(real \<Rightarrow> nat) \<Rightarrow> pyfloat \<Rightarrow> string" where
  "format_2pct hundredths x =
     (case x of
        Finite v \<Rightarrow>
          (let n = hundredths \<bar>v\<bar>
           in (if v < 0 then ''-'' else [])
              @ decimal (n div 100) @ ''.'' @ [digit (n mod 100 div 10), digit (n mod 10)]
              @ ''%'')
      | NegZero \<Rightarrow> ''-0.00%''
      | PosInf \<Rightarrow> ''inf%''
      | NegInf \<Rightarrow> ''-inf%''
      | NaN \<Rightarrow> ''nan%'')"



text \<open>The two code points of the warning sign, U+26A0 U+FE0F, in UTF-8.\<close>

definition warning_sign :: string where
  "warning_sign = [CHR 0xE2, CHR 0x9A, CHR 0xA0, CHR 0xEF, CHR 0xB8, CHR 0x8F]"

text \<open>
  \<open>except Exception as e: return f"... Error: {e}"\<close>. A raise outside \<open>Exception\<close>
  passes the clause and propagates (\<open>Inl\<close>). An \<open>Exception\<close> enters the handler, where
  the f-string calls \<open>str(e)\<close>: the message it returns is built into the returned string;
  when it raises instead, no \<open>try\<close> encloses the handler and that raise leaves the
  function.
\<close>

definition except_Exception :: "py_raise \<Rightarrow> py_raise + string" where
  "except_Exception e =
     (case e of
        Exception str_e \<Rightarrow>
          (case str_e of
             Inr msg \<Rightarrow> Inr (warning_sign @ '' Error: '' @ msg)
           | Inl e' \<Rightarrow> Inl e')
      | BaseException _ \<Rightarrow> Inl e)"

text \<open>
  The callback. The result is the returned string (\<open>Inr\<close>) or the exception that
  leaves the function (\<open>Inl\<close>), and the state of the loaded pipeline afterwards.
\<close>

definition make_prediction ::
  "(real \<Rightarrow> nat) \<Rightarrow> 's pipeline \<Rightarrow> 's \<Rightarrow> int \<Rightarrow> pyval \<Rightarrow> pyval \<Rightarrow> pyval
     \<Rightarrow> (py_raise + string) \<times> 's" where
  "make_prediction hundredths model s n_clicks age gender rural =
     (case preprocess model s age gender rural of
        Inl e \<Rightarrow> (except_Exception e, s)
      | Inr df \<Rightarrow>
          (case proba model s df of
             (Inl e, s') \<Rightarrow> (except_Exception e, s')
           | (Inr p, s') \<Rightarrow>
               (Inr (''Predicted mortality risk: '' @ format_2pct hundredths p), s')))"

text \<open>
  What the estimator's interface promises of one row of its answer: per-class
  probabilities, none negative, adding up to one.
\<close>

definition is_distribution :: "real list \<Rightarrow> bool" where
  "is_distribution row \<longleftrightarrow> (\<forall>x\<in>set row. 0 \<le> x) \<and> sum_list row = 1"

section \<open>The callback on the process store\<close>

text \<open>
  What an invocation can leave behind for a later one is the state of the process: the
  object bound to the global \<open>model\<close>, and the objects on the heap. The only objects this
  program writes to are dicts, so the heap holds dicts, a reference being an index into
  it. The functions below are \<open>preprocess\<close> and \<open>make_prediction\<close> again, statement by
  statement, with the dict \<open>base\<close> as an object on that heap: the comprehension on line 76
  allocates it, and each item assignment on lines 79 to 86 writes to it through its
  reference.
\<close>

record 's process =
  model_state :: 's
  heap :: "pydict list"

definition preprocess_st ::
  "'s pipeline \<Rightarrow> 's process \<Rightarrow> pyval \<Rightarrow> pyval \<Rightarrow> pyval
     \<Rightarrow> (py_raise + dataframe) \<times> 's process" where
  "preprocess_st model w age gender rural =
     (case feature_names_in model (model_state w) of
        Inl e \<Rightarrow> (Inl e, w)
      | Inr expected_cols \<Rightarrow>
          (let base = length (heap w);
               w = w\<lparr>heap := heap w
                       @ [foldl (\<lambda>d col. dict_setitem d col (PyInt 0)) [] expected_cols]\<rparr>;
               w = (if dict_contains ''GENDER'' (heap w ! base)
                    then w\<lparr>heap := (heap w)
                           [base := dict_setitem (heap w ! base) ''GENDER'' gender]\<rparr>
                    else w);
               w = (if dict_contains ''RURAL'' (heap w ! base)
                    then w\<lparr>heap := (heap w)
                           [base := dict_setitem (heap w ! base) ''RURAL'' rural]\<rparr>
                    else w);
               w = (if dict_contains ''TYPE_OF_ADMISSION-EMERGENCY/OPD'' (heap w ! base)
                    then w\<lparr>heap := (heap w)
                           [base := dict_setitem (heap w ! base)
                                      ''TYPE_OF_ADMISSION-EMERGENCY/OPD'' (PyStr ''EMERGENCY'')]\<rparr>
                    else w);
               w = (if dict_contains ''AGE'' (heap w ! base)
                    then w\<lparr>heap := (heap w)
                           [base := dict_setitem (heap w ! base) ''AGE'' age]\<rparr>
                    else w)
           in (Inr (DataFrame_of_row (heap w ! base)), w)))"

definition make_prediction_st ::
  "(real \<Rightarrow> nat) \<Rightarrow> 's pipeline \<Rightarrow> 's process \<Rightarrow> int \<Rightarrow> pyval \<Rightarrow> pyval \<Rightarrow> pyval
     \<Rightarrow> (py_raise + string) \<times> 's process" where
  "make_prediction_st hundredths model w n_clicks age gender rural =
     (case preprocess_st model w age gender rural of
        (Inl e, w') \<Rightarrow> (except_Exception e, w')
      | (Inr df, w') \<Rightarrow>
          (case proba model (model_state w') df of
             (Inl e, s') \<Rightarrow> (except_Exception e, w'\<lparr>model_state := s'\<rparr>)
           | (Inr p, s') \<Rightarrow>
               (Inr (''Predicted mortality risk: '' @ format_2pct hundredths p),
                w'\<lparr>model_state := s'\<rparr>)))"

section \<open>Pipelines to run the definitions on\<close>

text \<open>
  A stand-in for a loaded artifact: five fitted feature names, and an estimator that
  answers every row with the distribution \<open>(3/4, 1/4)\<close> and leaves its state (a number)
  as it finds it.
\<close>

definition demo_pipeline :: "nat pipeline" where
  "demo_pipeline =
     \<lparr>feature_names_in =
        (\<lambda>_. Inr [''AGE'', ''GENDER'', ''RURAL'', ''TYPE_OF_ADMISSION-EMERGENCY/OPD'',
                   ''SMOKING'']),
      predict_proba = (\<lambda>s df. (Inr [[Finite (3 / 4), Finite (1 / 4)]], s))\<rparr>"





text \<open>
  A rounding to run the rendering with: the exact product, rounded to the nearest
  hundredth.
\<close>

definition demo_hundredths :: "real \<Rightarrow> nat" where
  "demo_hundredths v = nat (round (v * 10000))"

text \<open>A process that already holds a dict from earlier work.\<close>

definition demo_process :: "nat process" where
  "demo_process = \<lparr>model_state = 0, heap = [[(''AGE'', PyInt 41), (''GENDER'', PyStr ''FEMALE'')]]\<rparr>"

section \<open>Dictionary facts\<close>

lemma map_of_dict_setitem: "map_of (dict_setitem d k v) = (map_of d)(k \<mapsto> v)"
  by (induction d) (auto simp: fun_eq_iff)

lemma keys_dict_setitem:
  "map fst (dict_setitem d k v) = (if k \<in> set (map fst d) then map fst d else map fst d @ [k])"
proof (induction d)
  case Nil
  show ?case by simp
next
  case (Cons kv d)
  obtain k' v' where kv: "kv = (k', v')" by (cases kv)
  show ?case
  proof (cases "k' = k")
    case True
    with kv show ?thesis by simp
  next
    case False
    with kv Cons.IH show ?thesis by (cases "k \<in> set (map fst d)") simp_all
  qed
qed

lemma keys_dict_setitem_present:
  "dict_contains k d \<Longrightarrow> map fst (dict_setitem d k v) = map fst d"
  by (simp add: keys_dict_setitem dict_contains_def)

text \<open>The dict comprehension \<open>{col: 0 for col in expected_cols}\<close>.\<close>

lemma map_of_zeros:
  "map_of (foldl (\<lambda>d col. dict_setitem d col (PyInt 0)) acc cols) c =
     (if c \<in> set cols then Some (PyInt 0) else map_of acc c)"
  by (induction cols arbitrary: acc) (simp_all add: map_of_dict_setitem)

lemma keys_zeros_snoc:
  "map fst (foldl (\<lambda>d col. dict_setitem d col (PyInt 0)) [] (cols @ [c])) =
     (if c \<in> set (map fst (foldl (\<lambda>d col. dict_setitem d col (PyInt 0)) [] cols))
      then map fst (foldl (\<lambda>d col. dict_setitem d col (PyInt 0)) [] cols)
      else map fst (foldl (\<lambda>d col. dict_setitem d col (PyInt 0)) [] cols) @ [c])"
  by (simp add: keys_dict_setitem)

lemma set_keys_zeros:
  "set (map fst (foldl (\<lambda>d col. dict_setitem d col (PyInt 0)) [] cols)) = set cols"
proof (induction cols rule: rev_induct)
  case Nil
  show ?case by simp
next
  case (snoc c cols)
  then show ?case unfolding keys_zeros_snoc by auto
qed

lemma distinct_keys_zeros:
  "distinct (map fst (foldl (\<lambda>d col. dict_setitem d col (PyInt 0)) [] cols))"
proof (induction cols rule: rev_induct)
  case Nil
  show ?case by simp
next
  case (snoc c cols)
  then show ?case unfolding keys_zeros_snoc by auto
qed

lemma subseq_keys_zeros:
  "subseq (map fst (foldl (\<lambda>d col. dict_setitem d col (PyInt 0)) [] cols)) cols"
proof (induction cols rule: rev_induct)
  case Nil
  show ?case by simp
next
  case (snoc c cols)
  then show ?case unfolding keys_zeros_snoc
    by (auto intro: list_emb_append_mono list_emb_append2)
qed

lemma keys_zeros_distinct:
  "distinct cols \<Longrightarrow> map fst (foldl (\<lambda>d col. dict_setitem d col (PyInt 0)) [] cols) = cols"
proof (induction cols rule: rev_induct)
  case Nil
  show ?case by simp
next
  case (snoc c cols)
  then have "map fst (foldl (\<lambda>d col. dict_setitem d col (PyInt 0)) [] cols) = cols" by simp
  with snoc.prems show ?case unfolding keys_zeros_snoc by simp
qed

lemma df_at_row: "df_at (DataFrame_of_row base) 0 c = map_of base c"
  by (simp add: df_at_def DataFrame_of_row_def zip_map_fst_snd)

section \<open>What preprocess returns\<close>

lemma keys_guarded_setitem:
  "map fst (if dict_contains k d then dict_setitem d k v else d) = map fst d"
  by (simp add: keys_dict_setitem_present)

lemma map_of_guarded_setitem:
  "map_of (if dict_contains k d then dict_setitem d k v else d) c =
     (if c = k \<and> k \<in> set (map fst d) then Some v else map_of d c)"
  by (simp add: map_of_dict_setitem dict_contains_def)

lemma preprocess_result:
  assumes "feature_names_in model s = Inr cols"
  obtains df where
    "preprocess model s age gender rural = Inr df"
    "columns df = map fst (foldl (\<lambda>d col. dict_setitem d col (PyInt 0)) [] cols)"
    "map length (rows df) = [length (columns df)]"
    "\<And>c. df_at df 0 c =
            (if c \<in> set cols
             then Some (if c = ''AGE'' then age
                        else if c = ''TYPE_OF_ADMISSION-EMERGENCY/OPD'' then PyStr ''EMERGENCY''
                        else if c = ''RURAL'' then rural
                        else if c = ''GENDER'' then gender
                        else PyInt 0)
             else None)"
proof -
  define b0 where "b0 = foldl (\<lambda>d col. dict_setitem d col (PyInt 0)) [] cols"
  define b1 where "b1 = (if dict_contains ''GENDER'' b0 then dict_setitem b0 ''GENDER'' gender else b0)"
  define b2 where "b2 = (if dict_contains ''RURAL'' b1 then dict_setitem b1 ''RURAL'' rural else b1)"
  define b3 where "b3 = (if dict_contains ''TYPE_OF_ADMISSION-EMERGENCY/OPD'' b2
     then dict_setitem b2 ''TYPE_OF_ADMISSION-EMERGENCY/OPD'' (PyStr ''EMERGENCY'') else b2)"
  define b4 where "b4 = (if dict_contains ''AGE'' b3 then dict_setitem b3 ''AGE'' age else b3)"
  have res: "preprocess model s age gender rural = Inr (DataFrame_of_row b4)"
    using assms by (simp add: preprocess_def Let_def b0_def b1_def b2_def b3_def b4_def)
  have k1: "map fst b1 = map fst b0" unfolding b1_def by (rule keys_guarded_setitem)
  have k2: "map fst b2 = map fst b1" unfolding b2_def by (rule keys_guarded_setitem)
  have k3: "map fst b3 = map fst b2" unfolding b3_def by (rule keys_guarded_setitem)
  have k4: "map fst b4 = map fst b3" unfolding b4_def by (rule keys_guarded_setitem)
  have s0: "set (map fst b0) = set cols" unfolding b0_def by (rule set_keys_zeros)
  have m0: "map_of b0 c = (if c \<in> set cols then Some (PyInt 0) else None)" for c
    unfolding b0_def by (simp add: map_of_zeros)
  have m1: "map_of b1 c = (if c = ''GENDER'' \<and> ''GENDER'' \<in> set cols then Some gender else map_of b0 c)" for c
    unfolding b1_def map_of_guarded_setitem s0 ..
  have m2: "map_of b2 c = (if c = ''RURAL'' \<and> ''RURAL'' \<in> set cols then Some rural else map_of b1 c)" for c
    unfolding b2_def map_of_guarded_setitem k1 s0 ..
  have m3: "map_of b3 c = (if c = ''TYPE_OF_ADMISSION-EMERGENCY/OPD'' \<and> ''TYPE_OF_ADMISSION-EMERGENCY/OPD'' \<in> set cols
       then Some (PyStr ''EMERGENCY'') else map_of b2 c)" for c
    unfolding b3_def map_of_guarded_setitem k2 k1 s0 ..
  have m4: "map_of b4 c = (if c = ''AGE'' \<and> ''AGE'' \<in> set cols then Some age else map_of b3 c)" for c
    unfolding b4_def map_of_guarded_setitem k3 k2 k1 s0 ..
  have keys: "map fst b4 = map fst b0" by (simp only: k1 k2 k3 k4)
  have vals: "map_of b4 c =
                 (if c \<in> set cols
                  then Some (if c = ''AGE'' then age
                             else if c = ''TYPE_OF_ADMISSION-EMERGENCY/OPD'' then PyStr ''EMERGENCY''
                             else if c = ''RURAL'' then rural
                             else if c = ''GENDER'' then gender
                             else PyInt 0)
                  else None)" for c
    unfolding m4 m3 m2 m1 m0 by simp
  have c: "columns (DataFrame_of_row b4) =
          map fst (foldl (\<lambda>d col. dict_setitem d col (PyInt 0)) [] cols)"
    using keys by (simp add: DataFrame_of_row_def b0_def)
  have l: "map length (rows (DataFrame_of_row b4)) = [length (columns (DataFrame_of_row b4))]"
    by (simp add: DataFrame_of_row_def)
  have v: "df_at (DataFrame_of_row b4) 0 c =
                 (if c \<in> set cols
                  then Some (if c = ''AGE'' then age
                             else if c = ''TYPE_OF_ADMISSION-EMERGENCY/OPD'' then PyStr ''EMERGENCY''
                             else if c = ''RURAL'' then rural
                             else if c = ''GENDER'' then gender
                             else PyInt 0)
                  else None)" for c
    unfolding df_at_row by (rule vals)
  from res c l v show ?thesis by (rule that)
qed

section \<open>Properties of preprocess\<close>

text \<open>
  C1. Whenever the fitted feature names can be read, \<open>preprocess\<close> returns, for every
  age, gender and rural value, a table of one row whose column labels are, as a set, exactly
  the expected columns: each expected column is present once, and no other label appears.
\<close>

theorem preprocess_key_set:
  assumes "feature_names_in model s = Inr expected_cols"
  shows "\<exists>df. preprocess model s age gender rural = Inr df
           \<and> set (columns df) = set expected_cols \<and> distinct (columns df)
           \<and> map length (rows df) = [length (columns df)]"
proof -
  obtain df where
    res: "preprocess model s age gender rural = Inr df" and
    cols: "columns df = map fst (foldl (\<lambda>d col. dict_setitem d col (PyInt 0)) [] expected_cols)" and
    shape: "map length (rows df) = [length (columns df)]"
    by (rule preprocess_result [OF assms])
  have "set (columns df) = set expected_cols"
    unfolding cols by (rule set_keys_zeros)
  moreover have "distinct (columns df)"
    unfolding cols by (rule distinct_keys_zeros)
  ultimately show ?thesis using res shape by (intro exI [of _ df] conjI)
qed

theorem preprocess_key_set_witness:
  "feature_names_in demo_pipeline 0 =
     Inr [''AGE'', ''GENDER'', ''RURAL'', ''TYPE_OF_ADMISSION-EMERGENCY/OPD'', ''SMOKING'']
   \<and> (\<exists>df. preprocess demo_pipeline 0 (PyInt 60) (PyStr ''MALE'') (PyStr ''NO'') = Inr df
           \<and> set (columns df) =
               set [''AGE'', ''GENDER'', ''RURAL'', ''TYPE_OF_ADMISSION-EMERGENCY/OPD'', ''SMOKING'']
           \<and> distinct (columns df)
           \<and> map length (rows df) = [length (columns df)])"
proof -
  have h: "feature_names_in demo_pipeline 0 =
     Inr [''AGE'', ''GENDER'', ''RURAL'', ''TYPE_OF_ADMISSION-EMERGENCY/OPD'', ''SMOKING'']"
    by (simp add: demo_pipeline_def)
  from h preprocess_key_set [OF h, of "PyInt 60" "PyStr ''MALE''" "PyStr ''NO''"]
  show ?thesis by (rule conjI)
qed

text \<open>
  C3. If the admission-type column \<open>TYPE_OF_ADMISSION-EMERGENCY/OPD\<close> is among the
  expected columns, the row returned by \<open>preprocess\<close> holds the string \<open>EMERGENCY\<close> there,
  whatever age, gender and rural are.
\<close>

theorem preprocess_admission_emergency:
  assumes "feature_names_in model s = Inr expected_cols"
    and "''TYPE_OF_ADMISSION-EMERGENCY/OPD'' \<in> set expected_cols"
  shows "\<exists>df. preprocess model s age gender rural = Inr df
           \<and> df_at df 0 ''TYPE_OF_ADMISSION-EMERGENCY/OPD'' = Some (PyStr ''EMERGENCY'')"
proof (rule preprocess_result [OF assms(1), where age = age and gender = gender and rural = rural])
  fix df
  assume res: "preprocess model s age gender rural = Inr df"
    and cell: "\<And>c. df_at df 0 c =
            (if c \<in> set expected_cols
             then Some (if c = ''AGE'' then age
                        else if c = ''TYPE_OF_ADMISSION-EMERGENCY/OPD'' then PyStr ''EMERGENCY''
                        else if c = ''RURAL'' then rural
                        else if c = ''GENDER'' then gender
                        else PyInt 0)
             else None)"
  have "df_at df 0 ''TYPE_OF_ADMISSION-EMERGENCY/OPD'' = Some (PyStr ''EMERGENCY'')"
    unfolding cell using assms(2) by simp
  with res show ?thesis by (intro exI [of _ df] conjI)
qed

theorem preprocess_admission_emergency_witness:
  "feature_names_in demo_pipeline 0 =
     Inr [''AGE'', ''GENDER'', ''RURAL'', ''TYPE_OF_ADMISSION-EMERGENCY/OPD'', ''SMOKING'']
   \<and> ''TYPE_OF_ADMISSION-EMERGENCY/OPD'' \<in>
       set [''AGE'', ''GENDER'', ''RURAL'', ''TYPE_OF_ADMISSION-EMERGENCY/OPD'', ''SMOKING'']
   \<and> (\<exists>df. preprocess demo_pipeline 0 (PyInt 33) (PyStr ''FEMALE'') (PyStr ''YES'') = Inr df
           \<and> df_at df 0 ''TYPE_OF_ADMISSION-EMERGENCY/OPD'' = Some (PyStr ''EMERGENCY''))"
proof -
  have h: "feature_names_in demo_pipeline 0 =
     Inr [''AGE'', ''GENDER'', ''RURAL'', ''TYPE_OF_ADMISSION-EMERGENCY/OPD'', ''SMOKING'']"
    by (simp add: demo_pipeline_def)
  have m: "''TYPE_OF_ADMISSION-EMERGENCY/OPD'' \<in>
       set [''AGE'', ''GENDER'', ''RURAL'', ''TYPE_OF_ADMISSION-EMERGENCY/OPD'', ''SMOKING'']"
    by simp
  from h m preprocess_admission_emergency [OF h m, of "PyInt 33" "PyStr ''FEMALE''" "PyStr ''YES''"]
  show ?thesis by (intro conjI)
qed

text \<open>
  C4. Every expected column other than \<open>AGE\<close>, \<open>GENDER\<close>, \<open>RURAL\<close> and the
  admission-type column holds the integer 0 in the row returned by \<open>preprocess\<close>, for
  every input triple.
\<close>

theorem preprocess_other_columns_zero:
  assumes "feature_names_in model s = Inr expected_cols"
    and "col \<in> set expected_cols"
    and "col \<notin> {''AGE'', ''GENDER'', ''RURAL'', ''TYPE_OF_ADMISSION-EMERGENCY/OPD''}"
  shows "\<exists>df. preprocess model s age gender rural = Inr df \<and> df_at df 0 col = Some (PyInt 0)"
proof (rule preprocess_result [OF assms(1), where age = age and gender = gender and rural = rural])
  fix df
  assume res: "preprocess model s age gender rural = Inr df"
    and cell: "\<And>c. df_at df 0 c =
            (if c \<in> set expected_cols
             then Some (if c = ''AGE'' then age
                        else if c = ''TYPE_OF_ADMISSION-EMERGENCY/OPD'' then PyStr ''EMERGENCY''
                        else if c = ''RURAL'' then rural
                        else if c = ''GENDER'' then gender
                        else PyInt 0)
             else None)"
  from assms(3) have "col \<noteq> ''AGE''" "col \<noteq> ''GENDER''" "col \<noteq> ''RURAL''"
    "col \<noteq> ''TYPE_OF_ADMISSION-EMERGENCY/OPD''"
    by blast+
  with assms(2) have "df_at df 0 col = Some (PyInt 0)"
    unfolding cell by simp
  with res show ?thesis by (intro exI [of _ df] conjI)
qed

theorem preprocess_other_columns_zero_witness:
  "feature_names_in demo_pipeline 0 =
     Inr [''AGE'', ''GENDER'', ''RURAL'', ''TYPE_OF_ADMISSION-EMERGENCY/OPD'', ''SMOKING'']
   \<and> ''SMOKING'' \<in>
       set [''AGE'', ''GENDER'', ''RURAL'', ''TYPE_OF_ADMISSION-EMERGENCY/OPD'', ''SMOKING'']
   \<and> ''SMOKING'' \<notin> {''AGE'', ''GENDER'', ''RURAL'', ''TYPE_OF_ADMISSION-EMERGENCY/OPD''}
   \<and> (\<exists>df. preprocess demo_pipeline 0 (PyInt 33) (PyStr ''FEMALE'') (PyStr ''YES'') = Inr df
           \<and> df_at df 0 ''SMOKING'' = Some (PyInt 0))"
proof -
  have h: "feature_names_in demo_pipeline 0 =
     Inr [''AGE'', ''GENDER'', ''RURAL'', ''TYPE_OF_ADMISSION-EMERGENCY/OPD'', ''SMOKING'']"
    by (simp add: demo_pipeline_def)
  have m: "''SMOKING'' \<in>
       set [''AGE'', ''GENDER'', ''RURAL'', ''TYPE_OF_ADMISSION-EMERGENCY/OPD'', ''SMOKING'']"
    by simp
  have n: "''SMOKING'' \<notin> {''AGE'', ''GENDER'', ''RURAL'', ''TYPE_OF_ADMISSION-EMERGENCY/OPD''}"
    by simp
  from h m n preprocess_other_columns_zero [OF h m n, of "PyInt 33" "PyStr ''FEMALE''" "PyStr ''YES''"]
  show ?thesis by (intro conjI)
qed

text \<open>
  C6. For age 60, gender \<open>MALE\<close>, rural \<open>NO\<close> the row has \<open>AGE\<close> = 60,
  \<open>GENDER\<close> = \<open>MALE\<close>, \<open>RURAL\<close> = \<open>NO\<close> and the admission type \<open>EMERGENCY\<close>, each when
  that column is among the expected ones, and 0 in every other expected column.
\<close>

theorem preprocess_scenario_60_male_no:
  assumes "feature_names_in model s = Inr expected_cols"
  shows "\<exists>df. preprocess model s (PyInt 60) (PyStr ''MALE'') (PyStr ''NO'') = Inr df
           \<and> (''AGE'' \<in> set expected_cols \<longrightarrow> df_at df 0 ''AGE'' = Some (PyInt 60))
           \<and> (''GENDER'' \<in> set expected_cols \<longrightarrow> df_at df 0 ''GENDER'' = Some (PyStr ''MALE''))
           \<and> (''RURAL'' \<in> set expected_cols \<longrightarrow> df_at df 0 ''RURAL'' = Some (PyStr ''NO''))
           \<and> (''TYPE_OF_ADMISSION-EMERGENCY/OPD'' \<in> set expected_cols \<longrightarrow>
                df_at df 0 ''TYPE_OF_ADMISSION-EMERGENCY/OPD'' = Some (PyStr ''EMERGENCY''))
           \<and> (\<forall>col \<in> set expected_cols.
                col \<notin> {''AGE'', ''GENDER'', ''RURAL'', ''TYPE_OF_ADMISSION-EMERGENCY/OPD''} \<longrightarrow>
                df_at df 0 col = Some (PyInt 0))"
proof (rule preprocess_result [OF assms, where age = "PyInt 60" and gender = "PyStr ''MALE''"
      and rural = "PyStr ''NO''"])
  fix df
  assume res: "preprocess model s (PyInt 60) (PyStr ''MALE'') (PyStr ''NO'') = Inr df"
    and cell: "\<And>c. df_at df 0 c =
            (if c \<in> set expected_cols
             then Some (if c = ''AGE'' then PyInt 60
                        else if c = ''TYPE_OF_ADMISSION-EMERGENCY/OPD'' then PyStr ''EMERGENCY''
                        else if c = ''RURAL'' then PyStr ''NO''
                        else if c = ''GENDER'' then PyStr ''MALE''
                        else PyInt 0)
             else None)"
  have a: "''AGE'' \<in> set expected_cols \<longrightarrow> df_at df 0 ''AGE'' = Some (PyInt 60)"
    unfolding cell by simp
  have g: "''GENDER'' \<in> set expected_cols \<longrightarrow> df_at df 0 ''GENDER'' = Some (PyStr ''MALE'')"
    unfolding cell by simp
  have r: "''RURAL'' \<in> set expected_cols \<longrightarrow> df_at df 0 ''RURAL'' = Some (PyStr ''NO'')"
    unfolding cell by simp
  have t: "''TYPE_OF_ADMISSION-EMERGENCY/OPD'' \<in> set expected_cols \<longrightarrow>
                df_at df 0 ''TYPE_OF_ADMISSION-EMERGENCY/OPD'' = Some (PyStr ''EMERGENCY'')"
    unfolding cell by simp
  have z: "\<forall>col \<in> set expected_cols.
                col \<notin> {''AGE'', ''GENDER'', ''RURAL'', ''TYPE_OF_ADMISSION-EMERGENCY/OPD''} \<longrightarrow>
                df_at df 0 col = Some (PyInt 0)"
    unfolding cell by simp
  from res a g r t z show ?thesis by (intro exI [of _ df] conjI)
qed

theorem preprocess_scenario_60_male_no_witness:
  "feature_names_in demo_pipeline 0 =
     Inr [''AGE'', ''GENDER'', ''RURAL'', ''TYPE_OF_ADMISSION-EMERGENCY/OPD'', ''SMOKING'']
   \<and> (\<exists>df. preprocess demo_pipeline 0 (PyInt 60) (PyStr ''MALE'') (PyStr ''NO'') = Inr df
           \<and> df_at df 0 ''AGE'' = Some (PyInt 60)
           \<and> df_at df 0 ''GENDER'' = Some (PyStr ''MALE'')
           \<and> df_at df 0 ''RURAL'' = Some (PyStr ''NO'')
           \<and> df_at df 0 ''TYPE_OF_ADMISSION-EMERGENCY/OPD'' = Some (PyStr ''EMERGENCY'')
           \<and> df_at df 0 ''SMOKING'' = Some (PyInt 0))"
proof -
  have h: "feature_names_in demo_pipeline 0 =
     Inr [''AGE'', ''GENDER'', ''RURAL'', ''TYPE_OF_ADMISSION-EMERGENCY/OPD'', ''SMOKING'']"
    by (simp add: demo_pipeline_def)
  from preprocess_scenario_60_male_no [OF h] obtain df where
    c: "preprocess demo_pipeline 0 (PyInt 60) (PyStr ''MALE'') (PyStr ''NO'') = Inr df
        \<and> (''AGE'' \<in> set [''AGE'', ''GENDER'', ''RURAL'', ''TYPE_OF_ADMISSION-EMERGENCY/OPD'',
                              ''SMOKING''] \<longrightarrow>
             df_at df 0 ''AGE'' = Some (PyInt 60))
        \<and> (''GENDER'' \<in> set [''AGE'', ''GENDER'', ''RURAL'', ''TYPE_OF_ADMISSION-EMERGENCY/OPD'',
                                 ''SMOKING''] \<longrightarrow>
             df_at df 0 ''GENDER'' = Some (PyStr ''MALE''))
        \<and> (''RURAL'' \<in> set [''AGE'', ''GENDER'', ''RURAL'', ''TYPE_OF_ADMISSION-EMERGENCY/OPD'',
                                ''SMOKING''] \<longrightarrow>
             df_at df 0 ''RURAL'' = Some (PyStr ''NO''))
        \<and> (''TYPE_OF_ADMISSION-EMERGENCY/OPD''
               \<in> set [''AGE'', ''GENDER'', ''RURAL'', ''TYPE_OF_ADMISSION-EMERGENCY/OPD'',
                       ''SMOKING''] \<longrightarrow>
             df_at df 0 ''TYPE_OF_ADMISSION-EMERGENCY/OPD'' = Some (PyStr ''EMERGENCY''))
        \<and> (\<forall>col \<in> set [''AGE'', ''GENDER'', ''RURAL'', ''TYPE_OF_ADMISSION-EMERGENCY/OPD'',
                              ''SMOKING''].
               col \<notin> {''AGE'', ''GENDER'', ''RURAL'', ''TYPE_OF_ADMISSION-EMERGENCY/OPD''} \<longrightarrow>
               df_at df 0 col = Some (PyInt 0))"
    by (rule exE)
  note res = c [THEN conjunct1]
    and a = c [THEN conjunct2, THEN conjunct1]
    and g = c [THEN conjunct2, THEN conjunct2, THEN conjunct1]
    and r = c [THEN conjunct2, THEN conjunct2, THEN conjunct2, THEN conjunct1]
    and t = c [THEN conjunct2, THEN conjunct2, THEN conjunct2, THEN conjunct2, THEN conjunct1]
    and z = c [THEN conjunct2, THEN conjunct2, THEN conjunct2, THEN conjunct2, THEN conjunct2]
  have a': "df_at df 0 ''AGE'' = Some (PyInt 60)"
    using a by simp
  have g': "df_at df 0 ''GENDER'' = Some (PyStr ''MALE'')"
    using g by simp
  have r': "df_at df 0 ''RURAL'' = Some (PyStr ''NO'')"
    using r by simp
  have t': "df_at df 0 ''TYPE_OF_ADMISSION-EMERGENCY/OPD'' = Some (PyStr ''EMERGENCY'')"
    using t by simp
  have z': "df_at df 0 ''SMOKING'' = Some (PyInt 0)"
    using bspec [OF z, of "''SMOKING''"] by simp
  from res a' g' r' t' z'
  have "\<exists>df. preprocess demo_pipeline 0 (PyInt 60) (PyStr ''MALE'') (PyStr ''NO'') = Inr df
           \<and> df_at df 0 ''AGE'' = Some (PyInt 60)
           \<and> df_at df 0 ''GENDER'' = Some (PyStr ''MALE'')
           \<and> df_at df 0 ''RURAL'' = Some (PyStr ''NO'')
           \<and> df_at df 0 ''TYPE_OF_ADMISSION-EMERGENCY/OPD'' = Some (PyStr ''EMERGENCY'')
           \<and> df_at df 0 ''SMOKING'' = Some (PyInt 0)"
    by (intro exI [of _ df] conjI)
  with h show ?thesis by (rule conjI)
qed

text \<open>
  C9. \<open>preprocess\<close> checks nothing about the age: for every value, \<open>None\<close> and
  numbers outside 0..120 included, it returns a table and the \<open>AGE\<close> column, when expected,
  holds that very value.
\<close>

theorem preprocess_any_age:
  assumes "feature_names_in model s = Inr expected_cols"
  shows "\<exists>df. preprocess model s age gender rural = Inr df
           \<and> (''AGE'' \<in> set expected_cols \<longrightarrow> df_at df 0 ''AGE'' = Some age)"
proof (rule preprocess_result [OF assms, where age = age and gender = gender and rural = rural])
  fix df
  assume res: "preprocess model s age gender rural = Inr df"
    and cell: "\<And>c. df_at df 0 c =
            (if c \<in> set expected_cols
             then Some (if c = ''AGE'' then age
                        else if c = ''TYPE_OF_ADMISSION-EMERGENCY/OPD'' then PyStr ''EMERGENCY''
                        else if c = ''RURAL'' then rural
                        else if c = ''GENDER'' then gender
                        else PyInt 0)
             else None)"
  have "''AGE'' \<in> set expected_cols \<longrightarrow> df_at df 0 ''AGE'' = Some age"
    unfolding cell by simp
  with res show ?thesis by (intro exI [of _ df] conjI)
qed

theorem preprocess_any_age_witness:
  "feature_names_in demo_pipeline 0 =
     Inr [''AGE'', ''GENDER'', ''RURAL'', ''TYPE_OF_ADMISSION-EMERGENCY/OPD'', ''SMOKING'']
   \<and> (\<exists>df. preprocess demo_pipeline 0 PyNone (PyStr ''MALE'') (PyStr ''NO'') = Inr df
           \<and> df_at df 0 ''AGE'' = Some PyNone)
   \<and> (\<exists>df. preprocess demo_pipeline 0 (PyInt (- 7)) (PyStr ''MALE'') (PyStr ''NO'') = Inr df
           \<and> df_at df 0 ''AGE'' = Some (PyInt (- 7)))
   \<and> (\<exists>df. preprocess demo_pipeline 0 (PyInt 500) (PyStr ''MALE'') (PyStr ''NO'') = Inr df
           \<and> df_at df 0 ''AGE'' = Some (PyInt 500))"
proof -
  have h: "feature_names_in demo_pipeline 0 =
     Inr [''AGE'', ''GENDER'', ''RURAL'', ''TYPE_OF_ADMISSION-EMERGENCY/OPD'', ''SMOKING'']"
    by (simp add: demo_pipeline_def)
  have "\<exists>df. preprocess demo_pipeline 0 a (PyStr ''MALE'') (PyStr ''NO'') = Inr df
           \<and> df_at df 0 ''AGE'' = Some a" for a
    using preprocess_any_age [OF h, of a "PyStr ''MALE''" "PyStr ''NO''"] by simp
  with h show ?thesis by (intro conjI)
qed

text \<open>
  C10. The columns of the returned table follow the order of the fitted feature names:
  they are a subsequence of that list with the same elements, and they are that list itself
  when its names are pairwise distinct (a name that the list repeats is kept at its first
  place only, as a dict keeps a key).
\<close>

theorem preprocess_column_order:
  assumes "feature_names_in model s = Inr expected_cols"
  shows "\<exists>df. preprocess model s age gender rural = Inr df
           \<and> subseq (columns df) expected_cols
           \<and> set (columns df) = set expected_cols
           \<and> (distinct expected_cols \<longrightarrow> columns df = expected_cols)"
proof (rule preprocess_result [OF assms, where age = age and gender = gender and rural = rural])
  fix df
  assume res: "preprocess model s age gender rural = Inr df"
    and cols: "columns df = map fst (foldl (\<lambda>d col. dict_setitem d col (PyInt 0)) [] expected_cols)"
  have "subseq (columns df) expected_cols"
    unfolding cols by (rule subseq_keys_zeros)
  moreover have "set (columns df) = set expected_cols"
    unfolding cols by (rule set_keys_zeros)
  moreover have "distinct expected_cols \<longrightarrow> columns df = expected_cols"
    unfolding cols by (simp add: keys_zeros_distinct)
  ultimately show ?thesis using res by (intro exI [of _ df] conjI)
qed

theorem preprocess_column_order_witness:
  "feature_names_in demo_pipeline 0 =
     Inr [''AGE'', ''GENDER'', ''RURAL'', ''TYPE_OF_ADMISSION-EMERGENCY/OPD'', ''SMOKING'']
   \<and> distinct [''AGE'', ''GENDER'', ''RURAL'', ''TYPE_OF_ADMISSION-EMERGENCY/OPD'', ''SMOKING'']
   \<and> (\<exists>df. preprocess demo_pipeline 0 (PyInt 60) (PyStr ''MALE'') (PyStr ''NO'') = Inr df
           \<and> columns df =
               [''AGE'', ''GENDER'', ''RURAL'', ''TYPE_OF_ADMISSION-EMERGENCY/OPD'', ''SMOKING''])"
proof -
  have h: "feature_names_in demo_pipeline 0 =
     Inr [''AGE'', ''GENDER'', ''RURAL'', ''TYPE_OF_ADMISSION-EMERGENCY/OPD'', ''SMOKING'']"
    by (simp add: demo_pipeline_def)
  have d: "distinct [''AGE'', ''GENDER'', ''RURAL'', ''TYPE_OF_ADMISSION-EMERGENCY/OPD'', ''SMOKING'']"
    by simp
  from preprocess_column_order [OF h, of "PyInt 60" "PyStr ''MALE''" "PyStr ''NO''"] d
  have "\<exists>df. preprocess demo_pipeline 0 (PyInt 60) (PyStr ''MALE'') (PyStr ''NO'') = Inr df
           \<and> columns df =
               [''AGE'', ''GENDER'', ''RURAL'', ''TYPE_OF_ADMISSION-EMERGENCY/OPD'', ''SMOKING'']"
    by blast
  with h d show ?thesis by (intro conjI)
qed

section \<open>The rendering of a probability\<close>






section \<open>Properties of make\_prediction\<close>

lemma preprocess_demo:
  "preprocess demo_pipeline 0 (PyInt 60) (PyStr ''MALE'') (PyStr ''NO'') =
     Inr \<lparr>columns = [''AGE'', ''GENDER'', ''RURAL'', ''TYPE_OF_ADMISSION-EMERGENCY/OPD'',
                       ''SMOKING''],
          rows = [[PyInt 60, PyStr ''MALE'', PyStr ''NO'', PyStr ''EMERGENCY'', PyInt 0]]\<rparr>"
  by (simp add: preprocess_def demo_pipeline_def dict_contains_def DataFrame_of_row_def)

lemma proba_demo: "proba demo_pipeline s df = (Inr (Finite (1 / 4)), s)"
  by (simp add: proba_def getitem_0_1_def demo_pipeline_def)

lemma format_2pct_demo: "format_2pct demo_hundredths (Finite (1 / 4)) = ''25.00%''"
  by (simp add: format_2pct_def demo_hundredths_def decimal.simps digit_def)

lemma make_prediction_demo:
  "make_prediction demo_hundredths demo_pipeline 0 n (PyInt 60) (PyStr ''MALE'') (PyStr ''NO'') =
     (Inr ''Predicted mortality risk: 25.00%'', 0)"
  by (simp add: make_prediction_def preprocess_demo proba_demo format_2pct_demo)












text \<open>
  C5. If the estimator answers a feature row with a non-empty array of finite numbers
  whose rows are two-class probability distributions, the value selected on line 101 is
  entry 1 of row 0 of that array, and it lies between 0 and 1.
\<close>

theorem proba_in_unit_interval:
  assumes "fst (predict_proba model s df) = Inr (map (map Finite) a)"
    and "a \<noteq> []"
    and "\<forall>row \<in> set a. length row = 2 \<and> is_distribution row"
  shows "\<exists>p. fst (proba model s df) = Inr (Finite p) \<and> p = a ! 0 ! 1 \<and> 0 \<le> p \<and> p \<le> 1"
proof -
  from assms(2) obtain row a' where a: "a = row # a'"
    by (cases a) auto
  with assms(3) have len: "length row = 2" and dist: "is_distribution row"
    by simp_all
  from len obtain q p where row: "row = [q, p]"
    by (cases row; cases "tl row") auto
  from dist row have "0 \<le> q" "0 \<le> p" "q + p = 1"
    by (simp_all add: is_distribution_def)
  then have "0 \<le> p" "p \<le> 1" by linarith+
  moreover have "fst (proba model s df) = Inr (Finite p)"
    using assms(1) a row
    by (cases "predict_proba model s df") (simp add: proba_def getitem_0_1_def)
  moreover have "a ! 0 ! 1 = p" using a row by simp
  ultimately show ?thesis by simp
qed

theorem proba_in_unit_interval_witness:
  "fst (predict_proba demo_pipeline 0
          \<lparr>columns = [''AGE'', ''GENDER''], rows = [[PyInt 60, PyStr ''MALE'']]\<rparr>)
     = Inr (map (map Finite) [[3 / 4, 1 / 4]])
   \<and> [[3 / 4, 1 / 4 :: real]] \<noteq> []
   \<and> length [3 / 4, 1 / 4 :: real] = 2
   \<and> is_distribution [3 / 4, 1 / 4]
   \<and> (\<exists>p. fst (proba demo_pipeline 0
                    \<lparr>columns = [''AGE'', ''GENDER''], rows = [[PyInt 60, PyStr ''MALE'']]\<rparr>)
              = Inr (Finite p) \<and> p = 1 / 4 \<and> 0 \<le> p \<and> p \<le> 1)"
proof -
  have h1: "fst (predict_proba demo_pipeline 0
          \<lparr>columns = [''AGE'', ''GENDER''], rows = [[PyInt 60, PyStr ''MALE'']]\<rparr>)
     = Inr (map (map Finite) [[3 / 4, 1 / 4]])"
    by (simp add: demo_pipeline_def)
  have h2: "[[3 / 4, 1 / 4 :: real]] \<noteq> []"
    by simp
  have len: "length [3 / 4, 1 / 4 :: real] = 2"
    by simp
  have dist: "is_distribution [3 / 4, 1 / 4]"
    by (simp add: is_distribution_def)
  from len dist
  have h3: "\<forall>row \<in> set [[3 / 4, 1 / 4 :: real]]. length row = 2 \<and> is_distribution row"
    by simp
  from h1 h2 len dist proba_in_unit_interval [OF h1 h2 h3]
  show ?thesis by simp
qed




section \<open>The callback leaves no trace\<close>

lemma preprocess_st_frame:
  "\<exists>new. preprocess_st model w age gender rural =
           (preprocess model (model_state w) age gender rural, w\<lparr>heap := heap w @ new\<rparr>)"
proof (cases "feature_names_in model (model_state w)")
  case (Inl e)
  then have "preprocess_st model w age gender rural =
           (preprocess model (model_state w) age gender rural, w\<lparr>heap := heap w @ []\<rparr>)"
    by (simp add: preprocess_st_def preprocess_def)
  then show ?thesis ..
next
  case (Inr cols)
  define b0 where "b0 = foldl (\<lambda>d col. dict_setitem d col (PyInt 0)) [] cols"
  define b1 where "b1 = (if dict_contains ''GENDER'' b0 then dict_setitem b0 ''GENDER'' gender else b0)"
  define b2 where "b2 = (if dict_contains ''RURAL'' b1 then dict_setitem b1 ''RURAL'' rural else b1)"
  define b3 where "b3 = (if dict_contains ''TYPE_OF_ADMISSION-EMERGENCY/OPD'' b2
     then dict_setitem b2 ''TYPE_OF_ADMISSION-EMERGENCY/OPD'' (PyStr ''EMERGENCY'') else b2)"
  define b4 where "b4 = (if dict_contains ''AGE'' b3 then dict_setitem b3 ''AGE'' age else b3)"
  have pure: "preprocess model (model_state w) age gender rural = Inr (DataFrame_of_row b4)"
    using Inr by (simp add: preprocess_def Let_def b0_def b1_def b2_def b3_def b4_def)
  have "preprocess_st model w age gender rural =
          (Inr (DataFrame_of_row b4), w\<lparr>heap := heap w @ [b4]\<rparr>)"
    using Inr
    by (simp add: preprocess_st_def Let_def b0_def b1_def b2_def b3_def b4_def)
  with pure show ?thesis by (intro exI [of _ "[b4]"]) simp
qed

lemma make_prediction_st_frame:
  "\<exists>new. make_prediction_st hundredths model w n_clicks age gender rural =
           (fst (make_prediction hundredths model (model_state w) n_clicks age gender rural),
            w\<lparr>heap := heap w @ new,
              model_state :=
                snd (make_prediction hundredths model (model_state w) n_clicks age gender rural)\<rparr>)"
proof -
  obtain new where ps: "preprocess_st model w age gender rural =
           (preprocess model (model_state w) age gender rural, w\<lparr>heap := heap w @ new\<rparr>)"
    using preprocess_st_frame [of model w age gender rural] ..
  have "make_prediction_st hundredths model w n_clicks age gender rural =
           (fst (make_prediction hundredths model (model_state w) n_clicks age gender rural),
            w\<lparr>heap := heap w @ new,
              model_state :=
                snd (make_prediction hundredths model (model_state w) n_clicks age gender rural)\<rparr>)"
  proof (cases "preprocess model (model_state w) age gender rural")
    case (Inl e)
    with ps show ?thesis
      by (simp add: make_prediction_st_def make_prediction_def)
  next
    case (Inr df)
    obtain res s' where pr: "proba model (model_state w) df = (res, s')"
      by (cases "proba model (model_state w) df")
    with ps Inr show ?thesis
      by (cases res) (simp_all add: make_prediction_st_def make_prediction_def)
  qed
  then show ?thesis ..
qed

lemma make_prediction_state:
  "snd (make_prediction hundredths model s n_clicks age gender rural) =
     (case preprocess model s age gender rural of
        Inl e \<Rightarrow> s
      | Inr df \<Rightarrow> snd (predict_proba model s df))"
proof (cases "preprocess model s age gender rural")
  case (Inl e)
  then show ?thesis by (simp add: make_prediction_def)
next
  case (Inr df)
  obtain a s' where pp: "predict_proba model s df = (a, s')"
    by (cases "predict_proba model s df")
  with Inr show ?thesis
    by (cases a; cases "getitem_0_1 (projr a)") (simp_all add: make_prediction_def proba_def)
qed

lemma make_prediction_ignores_n_clicks:
  "make_prediction hundredths model s n_clicks age gender rural =
   make_prediction hundredths model s n_clicks' age gender rural"
  by (simp add: make_prediction_def)

text \<open>
  C8. An invocation of the callback on a process: every object that was on the heap is
  still there unchanged, the only addition being the dict that \<open>preprocess\<close> allocated; the
  loaded pipeline is in the state its own \<open>predict_proba\<close> left it in, and untouched when
  \<open>preprocess\<close> raised; and the outcome depends on age, gender, rural and the state of the
  pipeline only, not on the click count nor on anything on the heap. So with a pipeline
  that its estimation leaves as it was, the pipeline is the same afterwards, and a later
  invocation with the same age, gender and rural gives the same outcome as the first.
\<close>

theorem make_prediction_stateless:
  "prefix (heap w) (heap (snd (make_prediction_st hundredths model w n_clicks age gender rural)))
   \<and> model_state (snd (make_prediction_st hundredths model w n_clicks age gender rural))
       = (case preprocess model (model_state w) age gender rural of
            Inl e \<Rightarrow> model_state w
          | Inr df \<Rightarrow> snd (predict_proba model (model_state w) df))
   \<and> (model_state w' = model_state w \<longrightarrow>
        fst (make_prediction_st hundredths model w' n_clicks' age gender rural)
        = fst (make_prediction_st hundredths model w n_clicks age gender rural))
   \<and> ((\<forall>df. snd (predict_proba model (model_state w) df) = model_state w) \<longrightarrow>
        model_state (snd (make_prediction_st hundredths model w n_clicks age gender rural))
          = model_state w
        \<and> fst (make_prediction_st hundredths model
                  (snd (make_prediction_st hundredths model w n_clicks age gender rural))
                  n_clicks' age gender rural)
          = fst (make_prediction_st hundredths model w n_clicks age gender rural))"
proof -
  obtain new where r: "make_prediction_st hundredths model w n_clicks age gender rural =
           (fst (make_prediction hundredths model (model_state w) n_clicks age gender rural),
            w\<lparr>heap := heap w @ new,
              model_state :=
                snd (make_prediction hundredths model (model_state w) n_clicks age gender rural)\<rparr>)"
    using make_prediction_st_frame [of hundredths model w n_clicks age gender rural] ..
  have out: "fst (make_prediction_st hundredths model v n age gender rural)
             = fst (make_prediction hundredths model (model_state v) n_clicks age gender rural)"
    for v :: "'a process" and n
  proof -
    obtain new' where "make_prediction_st hundredths model v n age gender rural =
           (fst (make_prediction hundredths model (model_state v) n age gender rural),
            v\<lparr>heap := heap v @ new',
              model_state :=
                snd (make_prediction hundredths model (model_state v) n age gender rural)\<rparr>)"
      using make_prediction_st_frame [of hundredths model v n age gender rural] ..
    then show ?thesis
      using make_prediction_ignores_n_clicks [of hundredths model "model_state v" n age gender
          rural n_clicks]
      by simp
  qed
  have frame: "prefix (heap w)
                 (heap (snd (make_prediction_st hundredths model w n_clicks age gender rural)))"
    unfolding r by simp
  have st: "model_state (snd (make_prediction_st hundredths model w n_clicks age gender rural))
       = (case preprocess model (model_state w) age gender rural of
            Inl e \<Rightarrow> model_state w
          | Inr df \<Rightarrow> snd (predict_proba model (model_state w) df))"
    unfolding r by (simp add: make_prediction_state)
  have indep: "model_state w' = model_state w \<longrightarrow>
        fst (make_prediction_st hundredths model w' n_clicks' age gender rural)
        = fst (make_prediction_st hundredths model w n_clicks age gender rural)"
    by (simp add: out)
  have fixed: "(\<forall>df. snd (predict_proba model (model_state w) df) = model_state w) \<longrightarrow>
        model_state (snd (make_prediction_st hundredths model w n_clicks age gender rural))
          = model_state w
        \<and> fst (make_prediction_st hundredths model
                  (snd (make_prediction_st hundredths model w n_clicks age gender rural))
                  n_clicks' age gender rural)
          = fst (make_prediction_st hundredths model w n_clicks age gender rural)"
  proof
    assume ro: "\<forall>df. snd (predict_proba model (model_state w) df) = model_state w"
    have same: "model_state (snd (make_prediction_st hundredths model w n_clicks age gender rural))
          = model_state w"
      unfolding st using ro by (simp split: sum.splits)
    then show "model_state (snd (make_prediction_st hundredths model w n_clicks age gender rural))
          = model_state w
        \<and> fst (make_prediction_st hundredths model
                  (snd (make_prediction_st hundredths model w n_clicks age gender rural))
                  n_clicks' age gender rural)
          = fst (make_prediction_st hundredths model w n_clicks age gender rural)"
      by (simp add: out)
  qed
  from frame st indep fixed show ?thesis by (intro conjI)
qed

theorem make_prediction_stateless_witness:
  "(\<forall>df. snd (predict_proba demo_pipeline (model_state demo_process) df)
          = model_state demo_process)
   \<and> prefix (heap demo_process)
       (heap (snd (make_prediction_st demo_hundredths demo_pipeline demo_process 1
                     (PyInt 60) (PyStr ''MALE'') (PyStr ''NO''))))
   \<and> model_state (snd (make_prediction_st demo_hundredths demo_pipeline demo_process 1
                         (PyInt 60) (PyStr ''MALE'') (PyStr ''NO'')))
       = model_state demo_process
   \<and> fst (make_prediction_st demo_hundredths demo_pipeline
            (snd (make_prediction_st demo_hundredths demo_pipeline demo_process 1
                    (PyInt 60) (PyStr ''MALE'') (PyStr ''NO'')))
            2 (PyInt 60) (PyStr ''MALE'') (PyStr ''NO''))
       = fst (make_prediction_st demo_hundredths demo_pipeline demo_process 1
                (PyInt 60) (PyStr ''MALE'') (PyStr ''NO''))"
proof -
  have h: "\<forall>df. snd (predict_proba demo_pipeline (model_state demo_process) df)
          = model_state demo_process"
    by (simp add: demo_pipeline_def)
  note t = make_prediction_stateless [of demo_process demo_hundredths demo_pipeline 1
      "PyInt 60" "PyStr ''MALE''" "PyStr ''NO''" demo_process 2]
  note frame = t [THEN conjunct1]
  note fixed = t [THEN conjunct2, THEN conjunct2, THEN conjunct2, THEN mp, OF h]
  from h frame fixed [THEN conjunct1] fixed [THEN conjunct2]
  show ?thesis by (intro conjI)
qed

lemma preprocess_repeated_name:
  "preprocess (demo_pipeline\<lparr>feature_names_in := (\<lambda>_. Inr [''SMOKING'', ''AGE'', ''SMOKING''])\<rparr>)
     0 (PyInt 60) (PyStr ''MALE'') (PyStr ''NO'') =
     Inr \<lparr>columns = [''SMOKING'', ''AGE''], rows = [[PyInt 0, PyInt 60]]\<rparr>"
  by (simp add: preprocess_def demo_pipeline_def dict_contains_def DataFrame_of_row_def)

end
